theory Spec2Isabelle
  imports Main
begin

section \<open>Pointers, handles and status values\<close>

text \<open>
  Objects live in a store and are named by addresses. A raw pointer is an optional
  address (\<open>None\<close> is the null pointer). A \<open>services::SharedPtr\<close> handle wraps the raw
  pointer it manages; \<open>get\<close> is its \<open>get()\<close> member and a handle used as a condition is
  true exactly when \<open>get\<close> is not null. Reference counts are not tracked: objects are
  never reclaimed in this model.
\<close>

type_synonym addr = nat

datatype SharedPtr = SharedPtr (get: "addr option")

text \<open>
  Pointers to the sub-objects of an algorithm instance: \<open>InputOf a\<close> is \<open>&input\<close>,
  \<open>ParameterOf a\<close> is \<open>&parameter\<close> and \<open>EnvOf a\<close> is \<open>&_env\<close> of the instance at address
  \<open>a\<close>. An upcast to a base class keeps the pointer.
\<close>

datatype ref = InputOf addr | ParameterOf addr | EnvOf addr

text \<open>
  \<open>services::Status\<close> is the ordered collection of the errors raised; the empty
  collection is success. Only \<open>ErrorNullResult\<close> is named by the code at hand; every
  other identifier of the enumeration is an \<open>OtherError\<close>.
\<close>

datatype ErrorID = ErrorNullResult | OtherError nat

type_synonym Status = "ErrorID list"

definition Status_ok :: Status where
  "Status_ok = []"

definition Status_of :: "ErrorID \<Rightarrow> Status" where
  "Status_of e = [e]"

text \<open>
  Modelled from the spec: a Result is a collection of handles indexed by result
  identifier, and it starts empty. \<open>ResultType_ctor\<close> is the default constructor
  \<open>ResultType()\<close>; \<open>Result_get\<close> is the accessor \<open>get(id)\<close>.
\<close>

type_synonym Result = "nat \<Rightarrow> SharedPtr"

definition ResultType_ctor :: Result where
  "ResultType_ctor = (\<lambda>i. SharedPtr None)"

definition Result_get :: "Result \<Rightarrow> nat \<Rightarrow> SharedPtr" where
  "Result_get re i = re i"

section \<open>The z-score Batch algorithm instance\<close>

text \<open>
  The template arguments of \<open>Batch<algorithmFPType, method>\<close>: the precision is
  \<open>double\<close> or \<open>float\<close>; of the method enumeration only \<open>defaultDense\<close> is named here.
\<close>

datatype FPType = float | double

datatype Method = defaultDense | OtherMethod nat

text \<open>
  Modelled from the spec: the Environment describes the detected CPU capability tier,
  and a Container is bound to one combination of precision, method and CPU tier,
  chosen from the template arguments and the Environment when it is created.
  \<open>daalEnv\<close> is the constructor argument, the pointer to the Environment.
\<close>

record env =
  cpuid :: int

record BatchContainer =
  c_algorithmFPType :: FPType
  c_method :: Method
  c_cpu :: int
  daalEnv :: "ref option"

text \<open>
  The members inherited from \<open>Analysis<batch>\<close>: the container pointer \<open>_ac\<close>, the
  Environment \<open>_env\<close> and the cached pointers \<open>_par\<close>, \<open>_in\<close> and \<open>_res\<close>. The base class
  is declared elsewhere; the state its default constructor leaves is an argument
  \<open>base\<close> of the constructors below.
\<close>

record Analysis =
  m_ac :: "addr option"
  m_env :: env
  m_par :: "ref option"
  m_in :: "ref option"
  m_res :: "addr option"

text \<open>
  \<open>BatchImpl\<close> adds \<open>input\<close> and \<open>_result\<close>, \<open>Batch\<close> adds \<open>parameter\<close>. The Input and
  Parameter types are declared elsewhere and stay type variables. The two template
  arguments are kept with the object: they are its concrete type (\<open>method_arg\<close> is the
  template argument \<open>method\<close>).
\<close>

record ('i, 'p) Batch = Analysis +
  input :: 'i
  m_result :: SharedPtr
  parameter :: 'p
  algorithmFPType :: FPType
  method_arg :: Method

text \<open>
  The store: algorithm instances, containers and Result objects by address, and the
  first address never handed out. \<open>new\<close> takes that address.
\<close>

record ('i, 'p) heap =
  batches :: "addr \<rightharpoonup> ('i, 'p) Batch"
  containers :: "addr \<rightharpoonup> BatchContainer"
  results :: "addr \<rightharpoonup> Result"
  brk :: addr

definition heap_empty :: "('i, 'p) heap" where
  "heap_empty = \<lparr> batches = Map.empty, containers = Map.empty, results = Map.empty, brk = 0 \<rparr>"

text \<open>\<open>new ResultType()\<close>\<close>

definition new_ResultType :: "('i, 'p) heap \<Rightarrow> addr \<times> ('i, 'p) heap" where
  "new_ResultType h =
     (brk h, h\<lparr> results := (results h)(brk h \<mapsto> ResultType_ctor), brk := Suc (brk h) \<rparr>)"

text \<open>\<open>new __DAAL_ALGORITHM_CONTAINER(batch, BatchContainer, algorithmFPType, method)(&_env)\<close>\<close>

definition new_BatchContainer ::
  "FPType \<Rightarrow> Method \<Rightarrow> ref \<Rightarrow> env \<Rightarrow> ('i, 'p) heap \<Rightarrow> addr \<times> ('i, 'p) heap" where
  "new_BatchContainer fp m envp e h =
     (brk h,
      h\<lparr> containers := (containers h)(brk h \<mapsto>
            \<lparr> c_algorithmFPType = fp, c_method = m, c_cpu = cpuid e, daalEnv = Some envp \<rparr>),
         brk := Suc (brk h) \<rparr>)"

text \<open>\<open>BatchImpl::initialize()\<close>, on the object at address \<open>this\<close>.\<close>

definition BatchImpl_initialize ::
  "addr \<Rightarrow> ('i, 'p) Batch \<Rightarrow> ('i, 'p) heap \<Rightarrow> ('i, 'p) Batch \<times> ('i, 'p) heap" where
  "BatchImpl_initialize this b h =
     (let (a, h1) = new_ResultType h;
          b1 = b\<lparr> m_result := SharedPtr (Some a) \<rparr>;
          b2 = b1\<lparr> m_in := Some (InputOf this) \<rparr>
      in (b2, h1))"

text \<open>\<open>Batch::initialize()\<close>\<close>

definition Batch_initialize ::
  "addr \<Rightarrow> ('i, 'p) Batch \<Rightarrow> ('i, 'p) heap \<Rightarrow> ('i, 'p) Batch \<times> ('i, 'p) heap" where
  "Batch_initialize this b h =
     (let (c, h1) = new_BatchContainer (algorithmFPType b) (method_arg b) (EnvOf this) (m_env b) h;
          b1 = b\<lparr> m_ac := Some c \<rparr>;
          b2 = b1\<lparr> m_par := Some (ParameterOf this) \<rparr>
      in (b2, h1))"

text \<open>
  The object as its member initialisers leave it, before any constructor body runs:
  the base sub-object default-constructed, \<open>_result\<close> an empty handle.
\<close>

definition Batch_members ::
  "Analysis \<Rightarrow> 'i \<Rightarrow> 'p \<Rightarrow> FPType \<Rightarrow> Method \<Rightarrow> ('i, 'p) Batch" where
  "Batch_members base inp par fp m =
     \<lparr> m_ac = m_ac base, m_env = m_env base, m_par = m_par base, m_in = m_in base,
       m_res = m_res base, input = inp, m_result = SharedPtr None, parameter = par,
       algorithmFPType = fp, method_arg = m \<rparr>"

text \<open>
  \<open>Batch()\<close>: \<open>BatchImpl()\<close> runs \<open>BatchImpl::initialize()\<close>, then the body runs
  \<open>Batch::initialize()\<close>. \<open>inp0\<close> and \<open>par0\<close> are the default-constructed Input and
  Parameter.
\<close>

definition Batch_ctor ::
  "Analysis \<Rightarrow> 'i \<Rightarrow> 'p \<Rightarrow> FPType \<Rightarrow> Method \<Rightarrow> addr \<Rightarrow> ('i, 'p) heap
     \<Rightarrow> ('i, 'p) Batch \<times> ('i, 'p) heap" where
  "Batch_ctor base inp0 par0 fp m this h =
     (let (b1, h1) = BatchImpl_initialize this (Batch_members base inp0 par0 fp m) h
      in Batch_initialize this b1 h1)"

text \<open>
  \<open>Batch(const Batch & other)\<close>: \<open>BatchImpl(other)\<close> copies \<open>input\<close> and runs
  \<open>BatchImpl::initialize()\<close>; \<open>parameter\<close> is copied; the body runs
  \<open>Batch::initialize()\<close>. Neither constructor names the base class in its initialiser
  list, so the base sub-object is default-constructed.
\<close>

definition Batch_copy_ctor ::
  "Analysis \<Rightarrow> ('i, 'p) Batch \<Rightarrow> addr \<Rightarrow> ('i, 'p) heap \<Rightarrow> ('i, 'p) Batch \<times> ('i, 'p) heap" where
  "Batch_copy_ctor base other this h =
     (let (b1, h1) = BatchImpl_initialize this
            (Batch_members base (input other) (parameter other)
               (algorithmFPType other) (method_arg other)) h
      in Batch_initialize this b1 h1)"

text \<open>\<open>getResult()\<close>\<close>

definition getResult :: "('i, 'p) Batch \<Rightarrow> SharedPtr" where
  "getResult b = m_result b"

text \<open>\<open>getParameter()\<close>: \<open>&parameter\<close> as a pointer to the base Parameter.\<close>

definition getParameter :: "addr \<Rightarrow> ref option" where
  "getParameter this = Some (ParameterOf this)"

text \<open>
  Modelled from the spec: the macro \<open>DAAL_CHECK(cond, error)\<close> is defined outside the
  files at hand. When \<open>cond\<close> is false it makes the enclosing function return a Status
  holding \<open>error\<close> (\<open>Some\<close> that Status); otherwise the function goes on (\<open>None\<close>).
\<close>

definition DAAL_CHECK :: "bool \<Rightarrow> ErrorID \<Rightarrow> Status option" where
  "DAAL_CHECK cond error = (if cond then None else Some (Status_of error))"

text \<open>\<open>setResult(result)\<close>; the handle as a condition is true when it is not empty.\<close>

definition setResult :: "SharedPtr \<Rightarrow> ('i, 'p) Batch \<Rightarrow> Status \<times> ('i, 'p) Batch" where
  "setResult result b =
     (case DAAL_CHECK (get result \<noteq> None) ErrorNullResult of
        Some s \<Rightarrow> (s, b)
      | None \<Rightarrow>
          let b1 = b\<lparr> m_result := result \<rparr>;
              b2 = b1\<lparr> m_res := get (m_result b1) \<rparr>
          in (Status_ok, b2))"

text \<open>
  \<open>allocateResult()\<close>. \<open>Result::allocate\<close> is declared elsewhere: \<open>alloc\<close> stands for it.
  It receives the precision, the Input and the Parameter (through pointers to
  constants), the method and the Result it is called on, and gives a Status and the
  new state of that Result. Calling it through an empty or dangling handle is
  undefined behaviour (\<open>None\<close>).
\<close>

type_synonym ('i, 'p) allocate = "FPType \<Rightarrow> 'i \<Rightarrow> 'p \<Rightarrow> Method \<Rightarrow> Result \<Rightarrow> Status \<times> Result"

definition allocateResult ::
  "('i, 'p) allocate \<Rightarrow> ('i, 'p) Batch \<Rightarrow> ('i, 'p) heap
     \<Rightarrow> (Status \<times> ('i, 'p) Batch \<times> ('i, 'p) heap) option" where
  "allocateResult alloc b h =
     (case get (m_result b) of
        None \<Rightarrow> None
      | Some r \<Rightarrow>
          (case results h r of
             None \<Rightarrow> None
           | Some R \<Rightarrow>
               let (s, R') = alloc (algorithmFPType b) (input b) (parameter b) (method_arg b) R;
                   h1 = h\<lparr> results := (results h)(r \<mapsto> R') \<rparr>;
                   b1 = b\<lparr> m_res := get (m_result b) \<rparr>
               in Some (s, b1, h1)))"

text \<open>
  \<open>cloneImpl()\<close> is \<open>new Batch(*this)\<close>: the new object takes the next address, the copy
  constructor runs on it, and it is stored. \<open>clone()\<close> wraps the pointer in a handle.
\<close>

definition cloneImpl ::
  "Analysis \<Rightarrow> ('i, 'p) Batch \<Rightarrow> ('i, 'p) heap \<Rightarrow> addr \<times> ('i, 'p) heap" where
  "cloneImpl base b h =
     (let a = brk h;
          (c, h1) = Batch_copy_ctor base b a (h\<lparr> brk := Suc (brk h) \<rparr>)
      in (a, h1\<lparr> batches := (batches h1)(a \<mapsto> c) \<rparr>))"

definition clone ::
  "Analysis \<Rightarrow> ('i, 'p) Batch \<Rightarrow> ('i, 'p) heap \<Rightarrow> SharedPtr \<times> ('i, 'p) heap" where
  "clone base b h = (let (a, h1) = cloneImpl base b h in (SharedPtr (Some a), h1))"

section \<open>Sequences of operations on the store\<close>

text \<open>
  The operations a caller performs on the instances of a store: creating an instance
  with \<open>new Batch<algorithmFPType, method>()\<close>, assigning the public members \<open>input\<close> and
  \<open>parameter\<close>, and calling \<open>setResult\<close>, \<open>getResult\<close>, \<open>getParameter\<close>,
  \<open>allocateResult\<close> and \<open>clone\<close> on the instance at an address.
\<close>

datatype ('i, 'p) op =
    Construct 'i 'p FPType Method
  | SetInput addr 'i
  | SetParameter addr 'p
  | SetResult addr SharedPtr
  | GetResult addr
  | GetParameter addr
  | AllocateResult addr
  | Clone addr

datatype reply = RNone | RStatus Status | RResult SharedPtr | RParameter "ref option" | RBatch SharedPtr

text \<open>
  A handle a caller can pass is empty or refers to a live Result: a handle shares
  ownership of its object.
\<close>

definition handle_ok :: "('i, 'p) heap \<Rightarrow> SharedPtr \<Rightarrow> bool" where
  "handle_ok h p = (case get p of None \<Rightarrow> True | Some r \<Rightarrow> results h r \<noteq> None)"

text \<open>
  One operation. A call on an address that holds no instance, and a call that runs
  into undefined behaviour, give \<open>None\<close>.
\<close>

fun exec ::
  "Analysis \<Rightarrow> ('i, 'p) allocate \<Rightarrow> ('i, 'p) op \<Rightarrow> ('i, 'p) heap
     \<Rightarrow> (reply \<times> ('i, 'p) heap) option" where
  "exec base alloc (Construct inp0 par0 fp m) h =
     (let a = brk h;
          (b, h1) = Batch_ctor base inp0 par0 fp m a (h\<lparr> brk := Suc (brk h) \<rparr>)
      in Some (RBatch (SharedPtr (Some a)), h1\<lparr> batches := (batches h1)(a \<mapsto> b) \<rparr>))"
| "exec base alloc (SetInput this v) h =
     (case batches h this of
        None \<Rightarrow> None
      | Some b \<Rightarrow> Some (RNone, h\<lparr> batches := (batches h)(this \<mapsto> b\<lparr> input := v \<rparr>) \<rparr>))"
| "exec base alloc (SetParameter this v) h =
     (case batches h this of
        None \<Rightarrow> None
      | Some b \<Rightarrow> Some (RNone, h\<lparr> batches := (batches h)(this \<mapsto> b\<lparr> parameter := v \<rparr>) \<rparr>))"
| "exec base alloc (SetResult this p) h =
     (case batches h this of
        None \<Rightarrow> None
      | Some b \<Rightarrow>
          if handle_ok h p
          then let (s, b') = setResult p b
               in Some (RStatus s, h\<lparr> batches := (batches h)(this \<mapsto> b') \<rparr>)
          else None)"
| "exec base alloc (GetResult this) h =
     (case batches h this of
        None \<Rightarrow> None
      | Some b \<Rightarrow> Some (RResult (getResult b), h))"
| "exec base alloc (GetParameter this) h =
     (case batches h this of
        None \<Rightarrow> None
      | Some b \<Rightarrow> Some (RParameter (getParameter this), h))"
| "exec base alloc (AllocateResult this) h =
     (case batches h this of
        None \<Rightarrow> None
      | Some b \<Rightarrow>
          (case allocateResult alloc b h of
             None \<Rightarrow> None
           | Some (s, b', h1) \<Rightarrow>
               Some (RStatus s, h1\<lparr> batches := (batches h1)(this \<mapsto> b') \<rparr>)))"
| "exec base alloc (Clone this) h =
     (case batches h this of
        None \<Rightarrow> None
      | Some b \<Rightarrow> (let (p, h1) = clone base b h in Some (RBatch p, h1)))"

text \<open>The operations that create an instance: construction and \<open>clone\<close>.\<close>

fun creates_instance :: "('i, 'p) op \<Rightarrow> bool" where
  "creates_instance (Construct inp0 par0 fp m) = True"
| "creates_instance (Clone this) = True"
| "creates_instance _ = False"

fun run ::
  "Analysis \<Rightarrow> ('i, 'p) allocate \<Rightarrow> ('i, 'p) op list \<Rightarrow> ('i, 'p) heap
     \<Rightarrow> ('i, 'p) heap option" where
  "run base alloc [] h = Some h"
| "run base alloc (x # xs) h =
     (case exec base alloc x h of
        None \<Rightarrow> None
      | Some (r, h1) \<Rightarrow> run base alloc xs h1)"

text \<open>Reading the Parameter and the Input of an instance through a pointer.\<close>

fun deref_Parameter :: "('i, 'p) heap \<Rightarrow> ref option \<Rightarrow> 'p option" where
  "deref_Parameter h (Some (ParameterOf a)) = map_option parameter (batches h a)"
| "deref_Parameter h _ = None"

fun deref_Input :: "('i, 'p) heap \<Rightarrow> ref option \<Rightarrow> 'i option" where
  "deref_Input h (Some (InputOf a)) = map_option input (batches h a)"
| "deref_Input h _ = None"

text \<open>
  A store is in order when every object lies below \<open>brk\<close> and the Result handle of
  every instance is empty or refers to a live Result.
\<close>

definition heap_ok :: "('i, 'p) heap \<Rightarrow> bool" where
  "heap_ok h \<longleftrightarrow>
     (\<forall>a. batches h a \<noteq> None \<longrightarrow> a < brk h) \<and>
     (\<forall>a. containers h a \<noteq> None \<longrightarrow> a < brk h) \<and>
     (\<forall>a. results h a \<noteq> None \<longrightarrow> a < brk h) \<and>
     (\<forall>a b. batches h a = Some b \<longrightarrow> handle_ok h (m_result b))"

text \<open>
  Concrete data for the examples: the base constructor leaving every pointer null, an
  \<open>allocate\<close> that fills entry 0 of the Result, and one that fails.
\<close>

definition base_null :: Analysis where
  "base_null = \<lparr> m_ac = None, m_env = \<lparr> cpuid = 4 \<rparr>, m_par = None, m_in = None, m_res = None \<rparr>"

definition alloc_fill :: "(nat, nat) allocate" where
  "alloc_fill fp inp par m R = (Status_ok, R(0 := SharedPtr (Some (inp + par))))"

definition alloc_fail :: "(nat, nat) allocate" where
  "alloc_fail fp inp par m R = (Status_of (OtherError 1), R)"

section \<open>The task descriptor of the Xavier initializer\<close>

text \<open>
  The initializer's Parameter holds a handle to the engine and a handle to the layer.
  The descriptor holds three raw pointers.
\<close>

record Parameter =
  engine :: SharedPtr
  layer :: SharedPtr

record XavierInitializerTaskDescriptor =
  engine :: "addr option"
  layer :: "addr option"
  result :: "addr option"

text \<open>The identifier \<open>initializers::value\<close> of the result tensor.\<close>

definition initializers_value :: nat where
  "initializers_value = 0"

text \<open>
  The store the constructor reads: the Result objects and the Parameter objects.
\<close>

record xavier_store =
  Result_objs :: "addr \<rightharpoonup> Result"
  Parameter_objs :: "addr \<rightharpoonup> Parameter"

text \<open>
  \<open>XavierInitializerTaskDescriptor(Result *re, Parameter *pa)\<close>. Both arguments are
  dereferenced without a check; a null or dangling argument is undefined behaviour,
  which the model reports as \<open>None\<close>.
\<close>

definition XavierInitializerTaskDescriptor_ctor ::
  "xavier_store \<Rightarrow> addr option \<Rightarrow> addr option \<Rightarrow> XavierInitializerTaskDescriptor option" where
  "XavierInitializerTaskDescriptor_ctor st re pa =
     (case pa of
        None \<Rightarrow> None
      | Some p \<Rightarrow>
          (case Parameter_objs st p of
             None \<Rightarrow> None
           | Some P \<Rightarrow>
               (case re of
                  None \<Rightarrow> None
                | Some r \<Rightarrow>
                    (case Result_objs st r of
                       None \<Rightarrow> None
                     | Some R \<Rightarrow>
                         Some \<lparr> engine = get (Parameter.engine P),
                                layer = get (Parameter.layer P),
                                result = get (Result_get R initializers_value) \<rparr>))))"

text \<open>A store with one Parameter whose layer handle is empty and one empty Result.\<close>

definition xavier_example_store :: xavier_store where
  "xavier_example_store =
     \<lparr> Result_objs = [5 \<mapsto> ResultType_ctor],
       Parameter_objs = [7 \<mapsto> \<lparr> Parameter.engine = SharedPtr (Some 11), layer = SharedPtr None \<rparr>] \<rparr>"

section \<open>Invariant of the instances\<close>

text \<open>
  What every instance of a store satisfies between operations: its Result handle is
  not empty, \<open>_par\<close> points to its own \<open>parameter\<close> and \<open>_in\<close> to its own \<open>input\<close>.
\<close>

definition instance_inv :: "addr \<Rightarrow> ('i, 'p) Batch \<Rightarrow> bool" where
  "instance_inv a b \<longleftrightarrow>
     get (m_result b) \<noteq> None \<and> m_par b = Some (ParameterOf a) \<and> m_in b = Some (InputOf a)"

definition heap_inv :: "('i, 'p) heap \<Rightarrow> bool" where
  "heap_inv h \<longleftrightarrow> (\<forall>a b. batches h a = Some b \<longrightarrow> instance_inv a b)"

section \<open>Example stores\<close>

text \<open>
  \<open>fresh_heap\<close> is the store after one instance was created at address 0;
  \<open>example_heap\<close> is the store after an instance was created and \<open>allocateResult\<close> ran
  on it, so that its Result holds output. \<open>clone_ops\<close> creates an instance, allocates
  its Result, has an empty handle rejected, clones the instance and has an empty
  handle rejected by the clone.
\<close>

definition fresh_batch :: "(nat, nat) Batch" where
  "fresh_batch =
     \<lparr> m_ac = Some 2, m_env = \<lparr> cpuid = 4 \<rparr>, m_par = Some (ParameterOf 0),
       m_in = Some (InputOf 0), m_res = None, input = 1,
       m_result = SharedPtr (Some 1), parameter = 2,
       algorithmFPType = double, method_arg = OtherMethod 1 \<rparr>"

definition fresh_heap :: "(nat, nat) heap" where
  "fresh_heap =
     \<lparr> batches = [0 \<mapsto> fresh_batch],
       containers = [2 \<mapsto>
         \<lparr> c_algorithmFPType = double, c_method = OtherMethod 1, c_cpu = 4,
           daalEnv = Some (EnvOf 0) \<rparr>],
       results = [1 \<mapsto> ResultType_ctor],
       brk = 3 \<rparr>"

definition example_batch :: "(nat, nat) Batch" where
  "example_batch =
     \<lparr> m_ac = Some 2, m_env = \<lparr> cpuid = 4 \<rparr>, m_par = Some (ParameterOf 0),
       m_in = Some (InputOf 0), m_res = Some 1, input = 1,
       m_result = SharedPtr (Some 1), parameter = 2,
       algorithmFPType = float, method_arg = defaultDense \<rparr>"

definition example_ops :: "(nat, nat) op list" where
  "example_ops = [Construct 1 2 float defaultDense, AllocateResult 0]"

definition example_heap :: "(nat, nat) heap" where
  "example_heap =
     \<lparr> batches = [0 \<mapsto>
         \<lparr> m_ac = Some 2, m_env = \<lparr> cpuid = 4 \<rparr>, m_par = Some (ParameterOf 0),
           m_in = Some (InputOf 0), m_res = Some 1, input = 1,
           m_result = SharedPtr (Some 1), parameter = 2,
           algorithmFPType = float, method_arg = defaultDense \<rparr>],
       containers = [2 \<mapsto>
         \<lparr> c_algorithmFPType = float, c_method = defaultDense, c_cpu = 4,
           daalEnv = Some (EnvOf 0) \<rparr>],
       results = [1 \<mapsto> ResultType_ctor(0 := SharedPtr (Some 3))],
       brk = 3 \<rparr>"

definition clone_ops :: "(nat, nat) op list" where
  "clone_ops =
     [Construct 1 2 float defaultDense, AllocateResult 0, SetResult 0 (SharedPtr None), Clone 0,
      SetResult 3 (SharedPtr None)]"

section \<open>Constructors and the order of the store\<close>

text \<open>The two constructors in closed form.\<close>

lemma Batch_ctor_eq:
  "Batch_ctor base inp par fp m this h =
     (\<lparr> m_ac = Some (Suc (brk h)), m_env = m_env base, m_par = Some (ParameterOf this),
        m_in = Some (InputOf this), m_res = m_res base, input = inp,
        m_result = SharedPtr (Some (brk h)), parameter = par,
        algorithmFPType = fp, method_arg = m \<rparr>,
      h\<lparr> results := (results h)(brk h \<mapsto> ResultType_ctor),
         containers := (containers h)(Suc (brk h) \<mapsto>
            \<lparr> c_algorithmFPType = fp, c_method = m, c_cpu = cpuid (m_env base),
              daalEnv = Some (EnvOf this) \<rparr>),
         brk := Suc (Suc (brk h)) \<rparr>)"
  by (simp add: Batch_ctor_def BatchImpl_initialize_def Batch_initialize_def
      Batch_members_def new_ResultType_def new_BatchContainer_def)

lemma Batch_copy_ctor_eq:
  "Batch_copy_ctor base other this h =
     Batch_ctor base (input other) (parameter other) (algorithmFPType other) (method_arg other) this h"
  by (simp add: Batch_copy_ctor_def Batch_ctor_def)

text \<open>The empty store is in order, and every operation keeps a store in order.\<close>

lemma heap_ok_empty: "heap_ok heap_empty"
  by (simp add: heap_ok_def heap_empty_def)

lemma heap_ok_exec:
  assumes "heap_ok h" and "exec base alloc x h = Some (r, h')"
  shows "heap_ok h'"
proof (cases x)
  case (Construct inp0 par0 fp m)
  with assms show ?thesis
    by (auto simp: Batch_ctor_eq heap_ok_def handle_ok_def less_Suc_eq Let_def split: if_splits option.splits)
next
  case (SetInput this v)
  with assms show ?thesis
    by (auto simp: heap_ok_def handle_ok_def split: option.splits if_splits)
next
  case (SetParameter this v)
  with assms show ?thesis
    by (auto simp: heap_ok_def handle_ok_def split: option.splits if_splits)
next
  case (SetResult this p)
  with assms show ?thesis
    by (auto simp: heap_ok_def handle_ok_def setResult_def DAAL_CHECK_def Let_def split: option.splits if_splits)
next
  case (GetResult this)
  with assms show ?thesis by (auto split: option.splits)
next
  case (GetParameter this)
  with assms show ?thesis by (auto split: option.splits)
next
  case (AllocateResult this)
  with assms show ?thesis
    by (auto simp: heap_ok_def handle_ok_def allocateResult_def Let_def
        split: option.splits if_splits prod.splits)
next
  case (Clone this)
  with assms show ?thesis
    by (auto simp: clone_def cloneImpl_def Batch_copy_ctor_eq Batch_ctor_eq heap_ok_def
        handle_ok_def less_Suc_eq Let_def split: option.splits if_splits)
qed

lemma clone_eq:
  "clone base b h =
     (SharedPtr (Some (brk h)),
      h\<lparr> results := (results h)(Suc (brk h) \<mapsto> ResultType_ctor),
         containers := (containers h)(Suc (Suc (brk h)) \<mapsto>
            \<lparr> c_algorithmFPType = algorithmFPType b, c_method = method_arg b,
              c_cpu = cpuid (m_env base), daalEnv = Some (EnvOf (brk h)) \<rparr>),
         brk := Suc (Suc (Suc (brk h))),
         batches := (batches h)(brk h \<mapsto>
            \<lparr> m_ac = Some (Suc (Suc (brk h))), m_env = m_env base,
              m_par = Some (ParameterOf (brk h)), m_in = Some (InputOf (brk h)),
              m_res = m_res base, input = input b,
              m_result = SharedPtr (Some (Suc (brk h))), parameter = parameter b,
              algorithmFPType = algorithmFPType b, method_arg = method_arg b \<rparr>) \<rparr>)"
  by (simp add: clone_def cloneImpl_def Batch_copy_ctor_eq Batch_ctor_eq Let_def)

lemma run_heap_ok:
  "heap_ok h \<Longrightarrow> run base alloc ops h = Some h' \<Longrightarrow> heap_ok h'"
proof (induction ops arbitrary: h)
  case Nil
  then show ?case by simp
next
  case (Cons x xs)
  then show ?case
    by (auto split: option.splits dest: heap_ok_exec)
qed

text \<open>Addresses from \<open>brk\<close> on are free, and no instance holds a handle to them.\<close>

lemma heap_ok_free:
  assumes "heap_ok h" and "brk h \<le> a"
  shows "batches h a = None" and "containers h a = None" and "results h a = None"
proof -
  from assms(2) have nl: "\<not> a < brk h" by simp
  from assms(1) have 1: "batches h a \<noteq> None \<longrightarrow> a < brk h"
    and 2: "containers h a \<noteq> None \<longrightarrow> a < brk h"
    and 3: "results h a \<noteq> None \<longrightarrow> a < brk h"
    unfolding heap_ok_def by blast+
  from nl 1 show "batches h a = None" by blast
  from nl 2 show "containers h a = None" by blast
  from nl 3 show "results h a = None" by blast
qed

lemma heap_ok_handle_below:
  assumes "heap_ok h" and "batches h a = Some b" and "brk h \<le> r"
  shows "m_result b \<noteq> SharedPtr (Some r)"
proof
  assume eq: "m_result b = SharedPtr (Some r)"
  from assms(1,2) have "handle_ok h (m_result b)"
    unfolding heap_ok_def by blast
  with eq have "results h r \<noteq> None"
    by (simp add: handle_ok_def)
  with heap_ok_free(3) [OF assms(1,3)] show False by simp
qed

text \<open>Every operation keeps the invariant of the instances.\<close>

lemma heap_inv_empty: "heap_inv heap_empty"
  by (simp add: heap_inv_def heap_empty_def)

lemma heap_inv_exec:
  assumes "heap_inv h" and "exec base alloc x h = Some (r, h')"
  shows "heap_inv h'"
proof (cases x)
  case (Construct inp0 par0 fp m)
  with assms show ?thesis
    by (auto simp: Batch_ctor_eq heap_inv_def instance_inv_def Let_def split: if_splits)
next
  case (SetInput this v)
  with assms show ?thesis
    by (auto simp: heap_inv_def instance_inv_def split: option.splits if_splits)
next
  case (SetParameter this v)
  with assms show ?thesis
    by (auto simp: heap_inv_def instance_inv_def split: option.splits if_splits)
next
  case (SetResult this p)
  with assms show ?thesis
    by (auto simp: heap_inv_def instance_inv_def setResult_def DAAL_CHECK_def Let_def
        split: option.splits if_splits)
next
  case (GetResult this)
  with assms show ?thesis by (auto split: option.splits)
next
  case (GetParameter this)
  with assms show ?thesis by (auto split: option.splits)
next
  case (AllocateResult this)
  with assms show ?thesis
    by (auto simp: heap_inv_def instance_inv_def allocateResult_def Let_def
        split: option.splits if_splits prod.splits)
next
  case (Clone this)
  with assms show ?thesis
    by (auto simp: clone_eq heap_inv_def instance_inv_def Let_def
        split: option.splits if_splits)
qed

lemma heap_inv_run:
  "heap_inv h \<Longrightarrow> run base alloc ops h = Some h' \<Longrightarrow> heap_inv h'"
proof (induction ops arbitrary: h)
  case Nil
  then show ?case by simp
next
  case (Cons x xs)
  then show ?case
    by (auto split: option.splits dest: heap_inv_exec)
qed

text \<open>
  An operation leaves the instances and the containers that exist in place, with
  their container pointer; a cached Result pointer that agrees with the handle still
  agrees afterwards.
\<close>

lemma exec_keeps_instance:
  assumes "heap_ok h" and "exec base alloc x h = Some (r, h')" and "batches h a = Some b"
  shows "\<exists>b'. batches h' a = Some b' \<and> m_ac b' = m_ac b \<and>
           (m_res b = get (m_result b) \<longrightarrow> m_res b' = get (m_result b'))"
proof -
  have fresh: "a \<noteq> brk h"
    using heap_ok_free(1) [OF assms(1), of "brk h"] assms(3) by auto
  show ?thesis
  proof (cases x)
    case (Construct inp0 par0 fp m)
    with assms fresh show ?thesis
      by (auto simp: Batch_ctor_eq Let_def)
  next
    case (SetInput this v)
    with assms show ?thesis
      by (auto split: option.splits)
  next
    case (SetParameter this v)
    with assms show ?thesis
      by (auto split: option.splits)
  next
    case (SetResult this p)
    with assms show ?thesis
      by (auto simp: setResult_def DAAL_CHECK_def Let_def split: option.splits if_splits)
  next
    case (GetResult this)
    with assms show ?thesis by (auto split: option.splits)
  next
    case (GetParameter this)
    with assms show ?thesis by (auto split: option.splits)
  next
    case (AllocateResult this)
    with assms show ?thesis
      by (auto simp: allocateResult_def Let_def split: option.splits prod.splits)
  next
    case (Clone this)
    with assms fresh show ?thesis
      by (auto simp: clone_eq split: option.splits)
  qed
qed

lemma exec_keeps_container:
  assumes "heap_ok h" and "exec base alloc x h = Some (r, h')" and "containers h c = Some k"
  shows "containers h' c = Some k"
proof -
  have fresh: "c \<noteq> Suc (Suc (brk h))"
    using heap_ok_free(2) [OF assms(1), of "Suc (Suc (brk h))"] assms(3) by auto
  show ?thesis
  proof (cases x)
    case (Construct inp0 par0 fp m)
    with assms fresh show ?thesis
      by (auto simp: Batch_ctor_eq Let_def)
  next
    case (SetInput this v)
    with assms show ?thesis
      by (auto split: option.splits)
  next
    case (SetParameter this v)
    with assms show ?thesis
      by (auto split: option.splits)
  next
    case (SetResult this p)
    with assms show ?thesis
      by (auto simp: setResult_def DAAL_CHECK_def Let_def split: option.splits if_splits)
  next
    case (GetResult this)
    with assms show ?thesis by (auto split: option.splits)
  next
    case (GetParameter this)
    with assms show ?thesis by (auto split: option.splits)
  next
    case (AllocateResult this)
    with assms show ?thesis
      by (auto simp: allocateResult_def Let_def split: option.splits prod.splits)
  next
    case (Clone this)
    with assms fresh show ?thesis
      by (auto simp: clone_eq split: option.splits)
  qed
qed

text \<open>
  Only the operations that create an instance create a container, and they create
  one, for the new instance.
\<close>

lemma exec_no_new_container:
  assumes "exec base alloc x h = Some (r, h')" and "\<not> creates_instance x"
  shows "containers h' = containers h"
proof (cases x)
  case (Construct inp0 par0 fp m)
  with assms(2) show ?thesis by simp
next
  case (SetInput this v)
  with assms show ?thesis
    by (auto split: option.splits)
next
  case (SetParameter this v)
  with assms show ?thesis
    by (auto split: option.splits)
next
  case (SetResult this p)
  with assms show ?thesis
    by (auto simp: setResult_def DAAL_CHECK_def Let_def split: option.splits if_splits)
next
  case (GetResult this)
  with assms show ?thesis by (auto split: option.splits)
next
  case (GetParameter this)
  with assms show ?thesis by (auto split: option.splits)
next
  case (AllocateResult this)
  with assms show ?thesis
    by (auto simp: allocateResult_def Let_def split: option.splits prod.splits)
next
  case (Clone this)
  with assms(2) show ?thesis by simp
qed

lemma exec_Clone_container:
  assumes "exec base alloc (Clone this) h = Some (r, h')" and "batches h this = Some b"
  shows "containers h' = (containers h)(Suc (Suc (brk h)) \<mapsto>
            \<lparr> c_algorithmFPType = algorithmFPType b, c_method = method_arg b,
              c_cpu = cpuid (m_env base), daalEnv = Some (EnvOf (brk h)) \<rparr>) \<and>
         (\<exists>b'. batches h' (brk h) = Some b' \<and> m_ac b' = Some (Suc (Suc (brk h))) \<and>
            m_env b' = m_env base)"
  using assms by (auto simp: clone_eq)

lemma exec_Construct_container:
  assumes "exec base alloc (Construct inp0 par0 fp m) h = Some (r, h')"
  shows "containers h' = (containers h)(Suc (Suc (brk h)) \<mapsto>
            \<lparr> c_algorithmFPType = fp, c_method = m,
              c_cpu = cpuid (m_env base), daalEnv = Some (EnvOf (brk h)) \<rparr>) \<and>
         (\<exists>b'. batches h' (brk h) = Some b' \<and> m_ac b' = Some (Suc (Suc (brk h))) \<and>
            m_env b' = m_env base)"
  using assms by (auto simp: Batch_ctor_eq Let_def)

text \<open>
  In a store in order whose instances satisfy the invariant, no call on a live
  instance runs into undefined behaviour.
\<close>

lemma exec_defined:
  assumes "heap_ok h" and "heap_inv h" and "batches h this = Some b"
  shows "exec base alloc (AllocateResult this) h \<noteq> None"
    and "exec base alloc (GetResult this) h \<noteq> None"
    and "exec base alloc (GetParameter this) h \<noteq> None"
    and "exec base alloc (Clone this) h \<noteq> None"
    and "handle_ok h p \<Longrightarrow> exec base alloc (SetResult this p) h \<noteq> None"
proof -
  from assms(2,3) obtain r where r: "get (m_result b) = Some r"
    by (auto simp: heap_inv_def instance_inv_def)
  from assms(1,3) have "handle_ok h (m_result b)"
    unfolding heap_ok_def by blast
  with r obtain R where R: "results h r = Some R"
    by (auto simp: handle_ok_def)
  from assms(3) r R show "exec base alloc (AllocateResult this) h \<noteq> None"
    by (simp add: allocateResult_def Let_def split: prod.splits)
  from assms(3) show "exec base alloc (GetResult this) h \<noteq> None"
    by simp
  from assms(3) show "exec base alloc (GetParameter this) h \<noteq> None"
    by simp
  from assms(3) show "exec base alloc (Clone this) h \<noteq> None"
    by (simp add: clone_eq)
  from assms(3) show "handle_ok h p \<Longrightarrow> exec base alloc (SetResult this p) h \<noteq> None"
    by (simp split: prod.splits)
qed

text \<open>The example stores are what the operations produce from the empty store.\<close>

lemma fresh_heap_run:
  "run base_null alloc_fill [Construct 1 2 double (OtherMethod 1)] heap_empty = Some fresh_heap"
  by (simp add: fresh_heap_def fresh_batch_def heap_empty_def Batch_ctor_eq Let_def
      base_null_def eval_nat_numeral)

lemma example_heap_run: "run base_null alloc_fill example_ops heap_empty = Some example_heap"
  by (simp add: example_ops_def example_heap_def heap_empty_def Batch_ctor_eq Let_def
      allocateResult_def alloc_fill_def base_null_def Status_ok_def eval_nat_numeral)

lemma clone_ops_run:
  "\<exists>h. run base_null alloc_fill clone_ops heap_empty = Some h \<and>
       batches h 3 = Some
         \<lparr> m_ac = Some 5, m_env = \<lparr> cpuid = 4 \<rparr>, m_par = Some (ParameterOf 3),
           m_in = Some (InputOf 3), m_res = None, input = 1,
           m_result = SharedPtr (Some 4), parameter = 2,
           algorithmFPType = float, method_arg = defaultDense \<rparr>"
  by (simp add: clone_ops_def heap_empty_def Batch_ctor_eq clone_eq Let_def allocateResult_def
      alloc_fill_def base_null_def setResult_def DAAL_CHECK_def handle_ok_def eval_nat_numeral)

section \<open>Properties of the algorithm instance\<close>

text \<open>
  C1: \<open>setResult(r)\<close> with an empty handle returns the Status holding
  \<open>ErrorNullResult\<close> and leaves the instance as it was, \<open>_result\<close> and \<open>_res\<close> included;
  with a non-empty handle it returns the empty Status, \<open>_result\<close> becomes \<open>r\<close> and \<open>_res\<close>
  its raw pointer.
\<close>

theorem setResult_spec:
  "(get r = None \<longrightarrow>
      fst (setResult r b) = [ErrorNullResult] \<and> snd (setResult r b) = b) \<and>
   (get r \<noteq> None \<longrightarrow>
      fst (setResult r b) = [] \<and>
      snd (setResult r b) = b\<lparr> m_result := r, m_res := get r \<rparr> \<and>
      getResult (snd (setResult r b)) = r)"
  by (simp add: setResult_def DAAL_CHECK_def Let_def Status_of_def Status_ok_def getResult_def)

theorem setResult_spec_witness:
  "fst (setResult (SharedPtr None) example_batch) = [ErrorNullResult] \<and>
   snd (setResult (SharedPtr None) example_batch) = example_batch \<and>
   fst (setResult (SharedPtr (Some 9)) example_batch) = [] \<and>
   getResult (snd (setResult (SharedPtr (Some 9)) example_batch)) = SharedPtr (Some 9)"
  using setResult_spec [of "SharedPtr None" example_batch]
    setResult_spec [of "SharedPtr (Some 9)" example_batch]
  by (simp add: getResult_def)

text \<open>
  C2: in a store in order, \<open>clone()\<close> of an instance creates an instance at a new
  address, of the same precision and method, with the Input and the Parameter of the
  source, and with a Result handle to a new Result object in its default-constructed
  (empty) state. The handle differs from the source's, the source and the Results
  that existed are left as they were, and the new instance is the one the copy
  constructor builds. The store is arbitrary, so the source's Result may hold the
  output of a computation.
\<close>

theorem clone_fresh_empty_result:
  assumes "heap_ok h" and "batches h src = Some b"
  shows "\<exists>a c r h'.
           clone base b h = (SharedPtr (Some a), h') \<and>
           batches h a = None \<and> batches h' a = Some c \<and>
           algorithmFPType c = algorithmFPType b \<and> method_arg c = method_arg b \<and>
           input c = input b \<and> parameter c = parameter b \<and>
           getResult c = SharedPtr (Some r) \<and> getResult c \<noteq> getResult b \<and>
           results h r = None \<and> results h' = (results h)(r \<mapsto> ResultType_ctor) \<and>
           batches h' src = Some b \<and>
           Batch_copy_ctor base b a (h\<lparr> brk := Suc (brk h) \<rparr>) =
             (c, h'\<lparr> batches := batches h \<rparr>)"
proof -
  have free: "batches h (brk h) = None" "results h (Suc (brk h)) = None"
    using heap_ok_free [OF assms(1)] by simp_all
  have ne': "SharedPtr (Some (Suc (brk h))) \<noteq> m_result b"
    using heap_ok_handle_below [OF assms, of "Suc (brk h)"] by auto
  from free(1) assms(2) have "src \<noteq> brk h"
    by auto
  with free ne' assms(2) show ?thesis
    by (simp add: clone_eq Batch_copy_ctor_eq Batch_ctor_eq getResult_def)
qed

theorem clone_fresh_empty_result_witness:
  "heap_ok example_heap \<and> batches example_heap 0 = Some example_batch \<and>
   results example_heap 1 = Some (ResultType_ctor(0 := SharedPtr (Some 3))) \<and>
   (\<exists>c h'. clone base_null example_batch example_heap = (SharedPtr (Some 3), h') \<and>
      batches h' 3 = Some c \<and> input c = 1 \<and> parameter c = 2 \<and>
      algorithmFPType c = float \<and> method_arg c = defaultDense \<and>
      getResult c = SharedPtr (Some 4) \<and> getResult example_batch = SharedPtr (Some 1) \<and>
      results h' 4 = Some ResultType_ctor \<and>
      results h' 1 = Some (ResultType_ctor(0 := SharedPtr (Some 3))))"
proof -
  have ok: "heap_ok example_heap"
    using run_heap_ok [OF heap_ok_empty example_heap_run] .
  have b: "batches example_heap 0 = Some example_batch"
    by (simp add: example_heap_def example_batch_def)
  have R: "results example_heap 1 = Some (ResultType_ctor(0 := SharedPtr (Some 3)))"
    by (simp add: example_heap_def)
  have brk: "brk example_heap = 3"
    by (simp add: example_heap_def)
  from clone_fresh_empty_result [OF ok b, of base_null] obtain a c r h' where
    c: "clone base_null example_batch example_heap = (SharedPtr (Some a), h')"
      "batches h' a = Some c" "algorithmFPType c = algorithmFPType example_batch"
      "method_arg c = method_arg example_batch" "input c = input example_batch"
      "parameter c = parameter example_batch" "getResult c = SharedPtr (Some r)"
      "results h' = (results example_heap)(r \<mapsto> ResultType_ctor)"
    by blast
  from c(1) have a: "a = 3"
    by (simp add: clone_eq brk)
  from c(1,2,7) a have r: "r = 4"
    by (auto simp: clone_eq brk getResult_def)
  from c a r R ok b show ?thesis
    by (simp add: example_batch_def getResult_def)
qed

text \<open>
  C4: in a store in order, the default constructor and the copy constructor each
  create one container, at a new address, for the precision and method of the
  instance and the CPU of its Environment, and bind \<open>_ac\<close> to it. No operation changes
  the \<open>_ac\<close> of an instance that exists, and no operation changes or removes a
  container. \<open>setResult\<close>, \<open>getResult\<close>, \<open>getParameter\<close>, \<open>allocateResult\<close> and the
  assignments to \<open>input\<close> and \<open>parameter\<close> create no container: they leave the set of
  containers as it was. \<open>clone\<close> and construction add one container, the one bound to
  the new instance.
\<close>

theorem container_bound_once:
  assumes "heap_ok h"
  shows "(\<exists>c. m_ac (fst (Batch_ctor base inp par fp m this h)) = Some c \<and>
            containers h c = None \<and>
            containers (snd (Batch_ctor base inp par fp m this h)) =
              (containers h)(c \<mapsto>
                 \<lparr> c_algorithmFPType = fp, c_method = m,
                   c_cpu = cpuid (m_env (fst (Batch_ctor base inp par fp m this h))),
                   daalEnv = Some (EnvOf this) \<rparr>)) \<and>
         (\<exists>c. m_ac (fst (Batch_copy_ctor base other this h)) = Some c \<and>
            containers h c = None \<and>
            containers (snd (Batch_copy_ctor base other this h)) =
              (containers h)(c \<mapsto>
                 \<lparr> c_algorithmFPType = algorithmFPType other, c_method = method_arg other,
                   c_cpu = cpuid (m_env (fst (Batch_copy_ctor base other this h))),
                   daalEnv = Some (EnvOf this) \<rparr>)) \<and>
         (\<forall>x r h' a b. exec base alloc x h = Some (r, h') \<longrightarrow> batches h a = Some b \<longrightarrow>
            (\<exists>b'. batches h' a = Some b' \<and> m_ac b' = m_ac b)) \<and>
         (\<forall>x r h' c k. exec base alloc x h = Some (r, h') \<longrightarrow> containers h c = Some k \<longrightarrow>
            containers h' c = Some k) \<and>
         (\<forall>x r h'. exec base alloc x h = Some (r, h') \<longrightarrow> \<not> creates_instance x \<longrightarrow>
            containers h' = containers h) \<and>
         (\<forall>src b r h'. exec base alloc (Clone src) h = Some (r, h') \<longrightarrow> batches h src = Some b \<longrightarrow>
            (\<exists>c b'. containers h c = None \<and>
               containers h' = (containers h)(c \<mapsto>
                 \<lparr> c_algorithmFPType = algorithmFPType b, c_method = method_arg b,
                   c_cpu = cpuid (m_env b'), daalEnv = Some (EnvOf (brk h)) \<rparr>) \<and>
               batches h (brk h) = None \<and> batches h' (brk h) = Some b' \<and> m_ac b' = Some c)) \<and>
         (\<forall>inp0 par0 fp0 m0 r h'.
            exec base alloc (Construct inp0 par0 fp0 m0) h = Some (r, h') \<longrightarrow>
            (\<exists>c b'. containers h c = None \<and>
               containers h' = (containers h)(c \<mapsto>
                 \<lparr> c_algorithmFPType = fp0, c_method = m0,
                   c_cpu = cpuid (m_env b'), daalEnv = Some (EnvOf (brk h)) \<rparr>) \<and>
               batches h (brk h) = None \<and> batches h' (brk h) = Some b' \<and> m_ac b' = Some c))"
proof -
  have free: "containers h (Suc (brk h)) = None" "containers h (Suc (Suc (brk h))) = None"
    "batches h (brk h) = None"
    using heap_ok_free [OF assms] by simp_all
  have ctor: "\<exists>c. m_ac (fst (Batch_ctor base inp par fp m this h)) = Some c \<and>
            containers h c = None \<and>
            containers (snd (Batch_ctor base inp par fp m this h)) =
              (containers h)(c \<mapsto>
                 \<lparr> c_algorithmFPType = fp, c_method = m,
                   c_cpu = cpuid (m_env (fst (Batch_ctor base inp par fp m this h))),
                   daalEnv = Some (EnvOf this) \<rparr>)" for inp par fp m
    using free(1) by (simp add: Batch_ctor_eq)
  have keep_ac: "\<forall>x r h' a b. exec base alloc x h = Some (r, h') \<longrightarrow> batches h a = Some b \<longrightarrow>
            (\<exists>b'. batches h' a = Some b' \<and> m_ac b' = m_ac b)"
    using exec_keeps_instance [OF assms] by blast
  have keep_c: "\<forall>x r h' c k. exec base alloc x h = Some (r, h') \<longrightarrow> containers h c = Some k \<longrightarrow>
            containers h' c = Some k"
    using exec_keeps_container [OF assms] by blast
  have none: "\<forall>x r h'. exec base alloc x h = Some (r, h') \<longrightarrow> \<not> creates_instance x \<longrightarrow>
            containers h' = containers h"
    using exec_no_new_container by blast
  have cl: "\<forall>src b r h'. exec base alloc (Clone src) h = Some (r, h') \<longrightarrow> batches h src = Some b \<longrightarrow>
            (\<exists>c b'. containers h c = None \<and>
               containers h' = (containers h)(c \<mapsto>
                 \<lparr> c_algorithmFPType = algorithmFPType b, c_method = method_arg b,
                   c_cpu = cpuid (m_env b'), daalEnv = Some (EnvOf (brk h)) \<rparr>) \<and>
               batches h (brk h) = None \<and> batches h' (brk h) = Some b' \<and> m_ac b' = Some c)"
  proof (intro allI impI)
    fix src b r h'
    assume ex: "exec base alloc (Clone src) h = Some (r, h')" and b: "batches h src = Some b"
    from exec_Clone_container [OF ex b] obtain b' where
      "containers h' = (containers h)(Suc (Suc (brk h)) \<mapsto>
            \<lparr> c_algorithmFPType = algorithmFPType b, c_method = method_arg b,
              c_cpu = cpuid (m_env base), daalEnv = Some (EnvOf (brk h)) \<rparr>)"
      "batches h' (brk h) = Some b'" "m_ac b' = Some (Suc (Suc (brk h)))" "m_env b' = m_env base"
      by blast
    with free(2,3) show "\<exists>c b'. containers h c = None \<and>
               containers h' = (containers h)(c \<mapsto>
                 \<lparr> c_algorithmFPType = algorithmFPType b, c_method = method_arg b,
                   c_cpu = cpuid (m_env b'), daalEnv = Some (EnvOf (brk h)) \<rparr>) \<and>
               batches h (brk h) = None \<and> batches h' (brk h) = Some b' \<and> m_ac b' = Some c"
      by auto
  qed
  have co: "\<forall>inp0 par0 fp0 m0 r h'.
            exec base alloc (Construct inp0 par0 fp0 m0) h = Some (r, h') \<longrightarrow>
            (\<exists>c b'. containers h c = None \<and>
               containers h' = (containers h)(c \<mapsto>
                 \<lparr> c_algorithmFPType = fp0, c_method = m0,
                   c_cpu = cpuid (m_env b'), daalEnv = Some (EnvOf (brk h)) \<rparr>) \<and>
               batches h (brk h) = None \<and> batches h' (brk h) = Some b' \<and> m_ac b' = Some c)"
  proof (intro allI impI)
    fix inp0 par0 fp0 m0 r h'
    assume ex: "exec base alloc (Construct inp0 par0 fp0 m0) h = Some (r, h')"
    from exec_Construct_container [OF ex] obtain b' where
      "containers h' = (containers h)(Suc (Suc (brk h)) \<mapsto>
            \<lparr> c_algorithmFPType = fp0, c_method = m0,
              c_cpu = cpuid (m_env base), daalEnv = Some (EnvOf (brk h)) \<rparr>)"
      "batches h' (brk h) = Some b'" "m_ac b' = Some (Suc (Suc (brk h)))" "m_env b' = m_env base"
      by blast
    with free(2,3) show "\<exists>c b'. containers h c = None \<and>
               containers h' = (containers h)(c \<mapsto>
                 \<lparr> c_algorithmFPType = fp0, c_method = m0,
                   c_cpu = cpuid (m_env b'), daalEnv = Some (EnvOf (brk h)) \<rparr>) \<and>
               batches h (brk h) = None \<and> batches h' (brk h) = Some b' \<and> m_ac b' = Some c"
      by auto
  qed
  from ctor [of inp par fp m]
    ctor [of "input other" "parameter other" "algorithmFPType other" "method_arg other"]
  have both: "(\<exists>c. m_ac (fst (Batch_ctor base inp par fp m this h)) = Some c \<and>
            containers h c = None \<and>
            containers (snd (Batch_ctor base inp par fp m this h)) =
              (containers h)(c \<mapsto>
                 \<lparr> c_algorithmFPType = fp, c_method = m,
                   c_cpu = cpuid (m_env (fst (Batch_ctor base inp par fp m this h))),
                   daalEnv = Some (EnvOf this) \<rparr>)) \<and>
         (\<exists>c. m_ac (fst (Batch_copy_ctor base other this h)) = Some c \<and>
            containers h c = None \<and>
            containers (snd (Batch_copy_ctor base other this h)) =
              (containers h)(c \<mapsto>
                 \<lparr> c_algorithmFPType = algorithmFPType other, c_method = method_arg other,
                   c_cpu = cpuid (m_env (fst (Batch_copy_ctor base other this h))),
                   daalEnv = Some (EnvOf this) \<rparr>))"
    unfolding Batch_copy_ctor_eq by blast
  from both keep_ac keep_c none cl co show ?thesis
    by (intro conjI) (rule conjunct1, assumption | rule conjunct2, assumption | assumption)+
qed

theorem container_bound_once_witness:
  "heap_ok fresh_heap \<and>
   (\<exists>r h' b'. exec base_null alloc_fill (Clone 0) fresh_heap = Some (r, h') \<and>
      batches h' 0 = Some b' \<and> m_ac b' = Some 2 \<and>
      containers h' 2 = Some \<lparr> c_algorithmFPType = double, c_method = OtherMethod 1,
                                c_cpu = 4, daalEnv = Some (EnvOf 0) \<rparr>) \<and>
   (\<exists>r h'. exec base_null alloc_fill (AllocateResult 0) fresh_heap = Some (r, h') \<and>
      containers h' = containers fresh_heap) \<and>
   (\<exists>r h'. exec base_null alloc_fill (SetResult 0 (SharedPtr (Some 1))) fresh_heap = Some (r, h') \<and>
      containers h' = containers fresh_heap)"
proof -
  have ok: "heap_ok fresh_heap"
    using run_heap_ok [OF heap_ok_empty fresh_heap_run] .
  obtain b where b: "batches fresh_heap 0 = Some b" and ac: "m_ac b = Some 2"
    and mr: "m_result b = SharedPtr (Some 1)"
    by (simp add: fresh_heap_def fresh_batch_def)
  have k: "containers fresh_heap 2 =
             Some \<lparr> c_algorithmFPType = double, c_method = OtherMethod 1,
                    c_cpu = 4, daalEnv = Some (EnvOf 0) \<rparr>"
    by (simp add: fresh_heap_def)
  have R: "results fresh_heap 1 = Some ResultType_ctor"
    by (simp add: fresh_heap_def)
  obtain r h' where ex: "exec base_null alloc_fill (Clone 0) fresh_heap = Some (r, h')"
    using b by (cases "clone base_null b fresh_heap") simp
  obtain r2 h2 where ex2: "exec base_null alloc_fill (AllocateResult 0) fresh_heap = Some (r2, h2)"
    using b mr R by (simp add: allocateResult_def alloc_fill_def Let_def)
  obtain r3 h3 where
    ex3: "exec base_null alloc_fill (SetResult 0 (SharedPtr (Some 1))) fresh_heap = Some (r3, h3)"
    using b R by (simp add: handle_ok_def setResult_def DAAL_CHECK_def Let_def)
  note inst = container_bound_once [OF ok, of base_null 0 0 float defaultDense 0 b alloc_fill]
  note keep_ac = inst [THEN conjunct2, THEN conjunct2, THEN conjunct1]
  note keep_c = inst [THEN conjunct2, THEN conjunct2, THEN conjunct2, THEN conjunct1]
  note none = inst [THEN conjunct2, THEN conjunct2, THEN conjunct2, THEN conjunct2,
      THEN conjunct1]
  from keep_ac ex b obtain b' where "batches h' 0 = Some b'" "m_ac b' = m_ac b"
    by blast
  moreover from keep_c ex k have "containers h' 2 =
             Some \<lparr> c_algorithmFPType = double, c_method = OtherMethod 1,
                    c_cpu = 4, daalEnv = Some (EnvOf 0) \<rparr>"
    by blast
  moreover have "containers h2 = containers fresh_heap"
    using none [rule_format, OF ex2] by simp
  moreover have "containers h3 = containers fresh_heap"
    using none [rule_format, OF ex3] by simp
  ultimately show ?thesis
    using ok ex ex2 ex3 ac by auto
qed

text \<open>
  C5: \<open>allocateResult()\<close> on an instance whose handle refers to a live Result calls
  \<open>allocate\<close> with the precision, the Input, the Parameter and the method of the
  instance, on that Result; it returns the Status of the call, stores the Result as
  the call left it, and sets \<open>_res\<close> to the raw pointer of \<open>_result\<close>.
\<close>

theorem allocateResult_spec:
  assumes "get (m_result b) = Some r" and "results h r = Some R"
  shows "allocateResult alloc b h =
           Some (fst (alloc (algorithmFPType b) (input b) (parameter b) (method_arg b) R),
                 b\<lparr> m_res := get (m_result b) \<rparr>,
                 h\<lparr> results := (results h)(r \<mapsto>
                      snd (alloc (algorithmFPType b) (input b) (parameter b) (method_arg b) R)) \<rparr>)"
  using assms by (simp add: allocateResult_def Let_def split: prod.splits)

theorem allocateResult_spec_witness:
  "get (m_result fresh_batch) = Some 1 \<and> results fresh_heap 1 = Some ResultType_ctor \<and>
   allocateResult alloc_fail fresh_batch fresh_heap =
     Some ([OtherError 1], fresh_batch\<lparr> m_res := Some 1 \<rparr>, fresh_heap) \<and>
   allocateResult alloc_fill fresh_batch fresh_heap =
     Some ([], fresh_batch\<lparr> m_res := Some 1 \<rparr>,
           fresh_heap\<lparr> results := [1 \<mapsto> ResultType_ctor(0 := SharedPtr (Some 3))] \<rparr>)"
proof -
  have r: "get (m_result fresh_batch) = Some 1"
    by (simp add: fresh_batch_def)
  have R: "results fresh_heap 1 = Some ResultType_ctor"
    by (simp add: fresh_heap_def)
  have same: "fresh_heap\<lparr> results := (results fresh_heap)(1 \<mapsto> ResultType_ctor) \<rparr> = fresh_heap"
    by (simp add: fresh_heap_def)
  have upd: "(results fresh_heap)(1 \<mapsto> R') = [1 \<mapsto> R']" for R'
    by (simp add: fresh_heap_def)
  have i: "input fresh_batch = 1" and p: "parameter fresh_batch = 2"
    by (simp_all add: fresh_batch_def)
  show ?thesis
    using allocateResult_spec [OF r R, of alloc_fail] allocateResult_spec [OF r R, of alloc_fill]
      r R same upd i p
    by (simp add: alloc_fail_def alloc_fill_def Status_of_def Status_ok_def eval_nat_numeral)
qed

text \<open>
  C6: \<open>getResult()\<close> on a live instance returns its \<open>_result\<close> handle and leaves the
  store as it was, whatever the handle and the Result hold.
\<close>

theorem getResult_returns_handle:
  assumes "batches h this = Some b"
  shows "exec base alloc (GetResult this) h = Some (RResult (m_result b), h)"
  using assms by (simp add: getResult_def)

theorem getResult_returns_handle_witness:
  "exec base_null alloc_fill (GetResult 0) fresh_heap =
     Some (RResult (SharedPtr (Some 1)), fresh_heap) \<and>
   results fresh_heap 1 = Some ResultType_ctor"
proof -
  have b: "batches fresh_heap 0 = Some fresh_batch"
    by (simp add: fresh_heap_def)
  have R: "results fresh_heap 1 = Some ResultType_ctor"
    by (simp add: fresh_heap_def)
  show ?thesis
    using getResult_returns_handle [OF b, of base_null alloc_fill] R
    by (simp add: fresh_batch_def)
qed

text \<open>
  C7: \<open>getParameter()\<close> on a live instance, of any precision and method, returns the
  pointer to the instance's own \<open>parameter\<close> member and leaves the store as it was;
  reading through the pointer gives that member.
\<close>

theorem getParameter_own_parameter:
  assumes "batches h this = Some b"
  shows "exec base alloc (GetParameter this) h = Some (RParameter (Some (ParameterOf this)), h) \<and>
         deref_Parameter h (getParameter this) = Some (parameter b)"
  using assms by (simp add: getParameter_def)

theorem getParameter_own_parameter_witness:
  "exec base_null alloc_fill (GetParameter 0) fresh_heap =
     Some (RParameter (Some (ParameterOf 0)), fresh_heap) \<and>
   deref_Parameter fresh_heap (getParameter 0) = Some 2"
proof -
  have b: "batches fresh_heap 0 = Some fresh_batch"
    by (simp add: fresh_heap_def)
  show ?thesis
    using getParameter_own_parameter [OF b, of base_null alloc_fill]
    by (simp add: fresh_batch_def)
qed

text \<open>
  C8: after any sequence of operations that starts from the empty store and runs
  without undefined behaviour, \<open>getResult()\<close> on any instance of the store returns a
  non-empty handle.
\<close>

theorem result_handle_never_null:
  assumes "run base alloc ops heap_empty = Some h" and "batches h a = Some b"
  shows "\<exists>p. exec base alloc (GetResult a) h = Some (RResult p, h) \<and> get p \<noteq> None"
proof -
  from heap_inv_run [OF heap_inv_empty assms(1)] assms(2) have "get (m_result b) \<noteq> None"
    by (simp add: heap_inv_def instance_inv_def)
  with assms(2) show ?thesis
    by (simp add: getResult_def)
qed

theorem result_handle_never_null_witness:
  "\<exists>h. run base_null alloc_fill clone_ops heap_empty = Some h \<and>
       exec base_null alloc_fill (GetResult 3) h = Some (RResult (SharedPtr (Some 4)), h) \<and>
       (\<exists>p. exec base_null alloc_fill (GetResult 3) h = Some (RResult p, h) \<and> get p \<noteq> None)"
proof -
  from clone_ops_run obtain h b where
    run: "run base_null alloc_fill clone_ops heap_empty = Some h" and
    b: "batches h 3 = Some b" and r: "m_result b = SharedPtr (Some 4)"
    by force
  have ex: "exec base_null alloc_fill (GetResult 3) h = Some (RResult (SharedPtr (Some 4)), h)"
    using b r by (simp add: getResult_def)
  from result_handle_never_null [OF run b] run ex show ?thesis
    by blast
qed

text \<open>
  C9, as stated, fails: an instance is created by a base constructor that leaves
  \<open>_res\<close> null, and \<open>setResult\<close> is called with an empty handle. The call is rejected,
  and afterwards \<open>_res\<close> is still null while \<open>_result.get()\<close> is the Result created by the
  constructor.
\<close>

theorem cached_result_pointer_counterexample:
  "run base_null alloc_fill [Construct 1 2 double (OtherMethod 1), SetResult 0 (SharedPtr None)]
     heap_empty = Some fresh_heap \<and>
   batches fresh_heap 0 = Some fresh_batch \<and>
   m_res fresh_batch = None \<and> get (m_result fresh_batch) = Some 1"
  by (simp add: fresh_heap_def fresh_batch_def heap_empty_def Batch_ctor_eq Let_def base_null_def
      setResult_def DAAL_CHECK_def handle_ok_def Status_of_def eval_nat_numeral)

text \<open>
  C9, amended: after any sequence of operations from the empty store, every instance
  (created or cloned) has \<open>_par\<close> pointing to its own \<open>parameter\<close> and \<open>_in\<close> to its own
  \<open>input\<close>. After a \<open>setResult\<close> that succeeds and after \<open>allocateResult\<close>, \<open>_res\<close> equals
  \<open>_result.get()\<close>; a \<open>setResult\<close> that is rejected leaves the instance as it was; and
  once \<open>_res\<close> equals \<open>_result.get()\<close>, every operation keeps it so.
\<close>

theorem cached_pointers_coherent:
  assumes "run base alloc ops heap_empty = Some h" and "batches h a = Some b"
  shows "m_par b = Some (ParameterOf a) \<and> m_in b = Some (InputOf a) \<and>
         deref_Parameter h (m_par b) = Some (parameter b) \<and>
         deref_Input h (m_in b) = Some (input b) \<and>
         (\<forall>p. get p \<noteq> None \<longrightarrow>
            fst (setResult p b) = [] \<and>
            m_res (snd (setResult p b)) = get (m_result (snd (setResult p b)))) \<and>
         (\<forall>p. get p = None \<longrightarrow> snd (setResult p b) = b) \<and>
         (\<forall>s b' h'. allocateResult alloc b h = Some (s, b', h') \<longrightarrow>
            m_res b' = get (m_result b')) \<and>
         (\<forall>x r h'. m_res b = get (m_result b) \<longrightarrow> exec base alloc x h = Some (r, h') \<longrightarrow>
            (\<exists>b'. batches h' a = Some b' \<and> m_res b' = get (m_result b')))"
proof -
  from heap_inv_run [OF heap_inv_empty assms(1)] assms(2)
  have par: "m_par b = Some (ParameterOf a)" and inp: "m_in b = Some (InputOf a)"
    by (simp_all add: heap_inv_def instance_inv_def)
  have ok: "heap_ok h"
    using run_heap_ok [OF heap_ok_empty assms(1)] .
  have d: "deref_Parameter h (m_par b) = Some (parameter b)"
    "deref_Input h (m_in b) = Some (input b)"
    using assms(2) by (simp_all add: par inp)
  have set_ok: "\<forall>p. get p \<noteq> None \<longrightarrow>
            fst (setResult p b) = [] \<and>
            m_res (snd (setResult p b)) = get (m_result (snd (setResult p b)))"
    by (simp add: setResult_def DAAL_CHECK_def Let_def Status_ok_def)
  have set_fail: "\<forall>p. get p = None \<longrightarrow> snd (setResult p b) = b"
    by (simp add: setResult_def DAAL_CHECK_def)
  have al: "\<forall>s b' h'. allocateResult alloc b h = Some (s, b', h') \<longrightarrow>
            m_res b' = get (m_result b')"
    by (auto simp: allocateResult_def Let_def split: option.splits prod.splits)
  have keep: "\<forall>x r h'. m_res b = get (m_result b) \<longrightarrow> exec base alloc x h = Some (r, h') \<longrightarrow>
            (\<exists>b'. batches h' a = Some b' \<and> m_res b' = get (m_result b'))"
    using exec_keeps_instance [OF ok _ assms(2)] by blast
  from par inp d set_ok set_fail al keep show ?thesis
    by blast
qed

theorem cached_pointers_coherent_witness:
  "\<exists>h b. run base_null alloc_fill clone_ops heap_empty = Some h \<and> batches h 3 = Some b \<and>
     m_par b = Some (ParameterOf 3) \<and> m_in b = Some (InputOf 3) \<and>
     deref_Parameter h (m_par b) = Some 2 \<and> deref_Input h (m_in b) = Some 1 \<and>
     m_res (snd (setResult (SharedPtr (Some 1)) b)) = Some 1 \<and>
     snd (setResult (SharedPtr None) b) = b"
proof -
  from clone_ops_run obtain h b where
    run: "run base_null alloc_fill clone_ops heap_empty = Some h" and
    b: "batches h 3 = Some b" and i: "input b = 1" and p: "parameter b = 2"
    by force
  note inst = cached_pointers_coherent [OF run b]
  from inst have 1: "m_par b = Some (ParameterOf 3)" "m_in b = Some (InputOf 3)"
    "deref_Parameter h (m_par b) = Some (parameter b)" "deref_Input h (m_in b) = Some (input b)"
    by blast+
  from inst have "get (SharedPtr (Some 1)) \<noteq> None \<longrightarrow>
      m_res (snd (setResult (SharedPtr (Some 1)) b)) =
        get (m_result (snd (setResult (SharedPtr (Some 1)) b)))"
    by blast
  then have 2: "m_res (snd (setResult (SharedPtr (Some 1)) b)) = Some 1"
    by (simp add: setResult_def DAAL_CHECK_def)
  from inst have "get (SharedPtr None) = None \<longrightarrow> snd (setResult (SharedPtr None) b) = b"
    by blast
  then have 3: "snd (setResult (SharedPtr None) b) = b"
    by simp
  from run b 1 2 3 i p show ?thesis
    by auto
qed

section \<open>Properties of the task descriptor\<close>

text \<open>
  C3: when the Result pointer and the Parameter pointer refer to live objects, the
  descriptor stores exactly the raw pointer of the Parameter's engine handle, the raw
  pointer of its layer handle and the raw pointer of the Result's value entry. The
  addresses are those held by the handles, so the descriptor refers to the same
  objects; whatever the three handles hold (null included) is stored unchecked.
\<close>

theorem task_descriptor_stores_raw_pointers:
  assumes "Result_objs st r = Some R" and "Parameter_objs st p = Some P"
  shows "XavierInitializerTaskDescriptor_ctor st (Some r) (Some p) =
           Some \<lparr> engine = get (Parameter.engine P),
                  layer = get (Parameter.layer P),
                  result = get (R initializers_value) \<rparr>"
  using assms by (simp add: XavierInitializerTaskDescriptor_ctor_def Result_get_def)

theorem task_descriptor_stores_raw_pointers_witness:
  "XavierInitializerTaskDescriptor_ctor xavier_example_store (Some 5) (Some 7) =
     Some \<lparr> engine = Some 11, layer = None, result = None \<rparr>"
proof -
  have R: "Result_objs xavier_example_store 5 = Some ResultType_ctor"
    by (simp add: xavier_example_store_def)
  have P: "Parameter_objs xavier_example_store 7 =
             Some \<lparr> Parameter.engine = SharedPtr (Some 11), layer = SharedPtr None \<rparr>"
    by (simp add: xavier_example_store_def)
  show ?thesis
    using task_descriptor_stores_raw_pointers [OF R P]
    by (simp add: ResultType_ctor_def)
qed

text \<open>
  C10: when the Result pointer and the Parameter pointer refer to live objects, the
  constructor returns a descriptor, whatever the three handles hold: an empty engine
  handle, layer handle or value entry gives a null pointer in the descriptor, and the
  constructor has no way to report an error.
\<close>

theorem task_descriptor_total:
  assumes "Result_objs st r = Some R" and "Parameter_objs st p = Some P"
  shows "\<exists>td. XavierInitializerTaskDescriptor_ctor st (Some r) (Some p) = Some td \<and>
           (get (Parameter.engine P) = None \<longrightarrow> engine td = None) \<and>
           (get (Parameter.layer P) = None \<longrightarrow> layer td = None) \<and>
           (get (Result_get R initializers_value) = None \<longrightarrow> result td = None)"
  using assms by (simp add: XavierInitializerTaskDescriptor_ctor_def)

theorem task_descriptor_total_witness:
  "\<exists>td. XavierInitializerTaskDescriptor_ctor xavier_example_store (Some 5) (Some 7) = Some td \<and>
     layer td = None \<and> result td = None"
proof -
  have R: "Result_objs xavier_example_store 5 = Some ResultType_ctor"
    by (simp add: xavier_example_store_def)
  have P: "Parameter_objs xavier_example_store 7 =
             Some \<lparr> Parameter.engine = SharedPtr (Some 11), layer = SharedPtr None \<rparr>"
    by (simp add: xavier_example_store_def)
  show ?thesis
    using task_descriptor_total [OF R P]
    by (simp add: ResultType_ctor_def Result_get_def)
qed

end
